theory Spec2Isabelle
  imports Complex_Main "HOL-Library.Sublist" "HOL-Library.Char_ord" "HOL-Library.List_Lexorder"
begin

section \<open>The EC2 external inventory script (playbooks/ec2.py)\<close>

text \<open>
  A shallow embedding of the class \<open>Ec2Inventory\<close>. Python strings are HOL strings, one
  list element per character of the Python string. A Python dictionary is an association
  list with distinct keys; the list order stands for the iteration order of
  \<open>dict.keys()\<close>, taken to be insertion order (an interpreter that iterates in hash order
  lists the same keys in another order). Every \<open>raise\<close> and every \<open>sys.exit\<close> of the source
  is an \<open>Inl\<close> result.
\<close>

subsection \<open>Values, errors and dictionaries\<close>

datatype json =
    JNull
  | JBool bool
  | JInt int
  | JStr string
  | JList "json list"
  | JObj "(string \<times> json) list"

datatype error =
    SystemExit nat
  | AttributeError
  | TypeError
  | KeyError
  | ValueError
  | IOError
  | OverflowError
  | BotoServerError string

type_synonym 'v dict = "(string \<times> 'v) list"

definition dict_has :: "'v dict \<Rightarrow> string \<Rightarrow> bool" where
  "dict_has d k = (map_of d k \<noteq> None)"

fun dict_set :: "'v dict \<Rightarrow> string \<Rightarrow> 'v \<Rightarrow> 'v dict" where
  "dict_set [] k v = [(k, v)]"
| "dict_set ((k', v') # d) k v =
     (if k' = k then (k, v) # d else (k', v') # dict_set d k v)"

subsection \<open>\<open>to_safe\<close>\<close>

text \<open>
  \<^verbatim>\<open>return re.sub("[^A-Za-z0-9\-]", "_", word)\<close>: every character outside the three ranges
  and the hyphen is replaced by one underscore.
\<close>

definition in_range :: "nat \<Rightarrow> nat \<Rightarrow> char \<Rightarrow> bool" where
  "in_range lo hi c = (lo \<le> of_char c \<and> (of_char c :: nat) \<le> hi)"

definition keeps :: "char \<Rightarrow> bool" where
  "keeps c = (in_range 65 90 c \<or> in_range 97 122 c \<or> in_range 48 57 c \<or> c = CHR ''-'')"

definition to_safe :: "string \<Rightarrow> string" where
  "to_safe word = map (\<lambda>c. if keeps c then c else CHR ''_'') word"

text \<open>The character class of the pattern \<^verbatim>\<open>^[A-Za-z0-9_-]*$\<close>.\<close>

definition safe_char :: "char \<Rightarrow> bool" where
  "safe_char c = (in_range 65 90 c \<or> in_range 97 122 c \<or> in_range 48 57 c
                  \<or> c = CHR ''_'' \<or> c = CHR ''-'')"

definition matches_safe :: "string \<Rightarrow> bool" where
  "matches_safe s = list_all safe_char s"

subsection \<open>\<open>push\<close> and \<open>keep_first\<close>\<close>

definition push :: "string list dict \<Rightarrow> string \<Rightarrow> string \<Rightarrow> string list dict" where
  "push my_dict key element =
     (case map_of my_dict key of
        Some xs \<Rightarrow> dict_set my_dict key (xs @ [element])
      | None \<Rightarrow> dict_set my_dict key [element])"

definition keep_first :: "string list dict \<Rightarrow> string \<Rightarrow> string \<Rightarrow> string list dict" where
  "keep_first my_dict key element =
     (case map_of my_dict key of
        None \<Rightarrow> dict_set my_dict key [element]
      | Some xs \<Rightarrow> my_dict)"

subsection \<open>Resource records of the provider SDK\<close>

text \<open>
  The boto objects are opaque to the script; the model gives each one the attributes the
  script reads. An attribute boto initialises to \<open>None\<close> is an option. \<open>groups\<close> and
  \<open>security_group\<close> are \<open>None\<close> when the object has no such attribute at all (the old boto
  the source guards against with \<^verbatim>\<open>except AttributeError\<close>).
\<close>

datatype pyval =
    VInt int
  | VBool bool
  | VStr string
  | VNone
  | VRegion string
  | VTags "(string \<times> string) list"
  | VGroups "(string \<times> string) list"
  | VOther

record ec2_instance =
  iid :: string
  state :: string
  subnet_id :: "string option"
  placement :: string
  instance_type :: string
  key_name :: "string option"
  groups :: "(string \<times> string) list option"
  tags :: "(string \<times> string) list"
  public_dns_name :: "string option"
  private_dns_name :: "string option"
  ip_address :: "string option"
  private_ip_address :: "string option"
  other_vars :: "(string \<times> pyval) list"

record db_instance =
  db_id :: string
  status :: string
  endpoint :: "(string option \<times> int) option"
  availability_zone :: string
  instance_class :: string
  security_group :: "string option option"
  engine :: string
  parameter_group :: "string option"

definition opt_val :: "string option \<Rightarrow> pyval" where
  "opt_val x = (case x of None \<Rightarrow> VNone | Some s \<Rightarrow> VStr s)"

text \<open>
  \<^verbatim>\<open>vars(instance)\<close>: the attributes of the object, by name, as the list of variables in
  the docstring of the script has them (a boto release that keeps \<open>state\<close> and \<open>placement\<close>
  behind properties stores them under other names); \<open>other_vars\<close> are the attributes the
  script reads only there. A group is the pair of its id and its name.
\<close>

definition instance_vars :: "ec2_instance \<Rightarrow> (string \<times> pyval) list" where
  "instance_vars i =
     [(''id'', VStr (iid i)),
      (''state'', VStr (state i)),
      (''subnet_id'', opt_val (subnet_id i)),
      (''placement'', VStr (placement i)),
      (''instance_type'', VStr (instance_type i)),
      (''key_name'', opt_val (key_name i))]
     @ (case groups i of None \<Rightarrow> [] | Some gs \<Rightarrow> [(''groups'', VGroups gs)])
     @ [(''tags'', VTags (tags i)),
        (''public_dns_name'', opt_val (public_dns_name i)),
        (''private_dns_name'', opt_val (private_dns_name i)),
        (''ip_address'', opt_val (ip_address i)),
        (''private_ip_address'', opt_val (private_ip_address i))]
     @ other_vars i"

definition getattr :: "ec2_instance \<Rightarrow> string \<Rightarrow> error + pyval" where
  "getattr i name =
     (case map_of (instance_vars i) name of
        None \<Rightarrow> Inl AttributeError
      | Some v \<Rightarrow> Inr v)"

text \<open>Python truthiness of a value, as \<^verbatim>\<open>if not dest\<close> tests it.\<close>

fun truthy :: "pyval \<Rightarrow> bool" where
  "truthy (VInt n) = (n \<noteq> 0)"
| "truthy (VBool b) = b"
| "truthy (VStr s) = (s \<noteq> [])"
| "truthy VNone = False"
| "truthy (VRegion n) = True"
| "truthy (VTags ts) = (ts \<noteq> [])"
| "truthy (VGroups gs) = (gs \<noteq> [])"
| "truthy VOther = True"

subsection \<open>The provider's API, the settings and the state of a run\<close>

text \<open>
  A connection answers \<^verbatim>\<open>get_all_instances\<close> (with an optional list of ids) with the
  reservations, each the list of its instances, or with the message of a
  \<open>BotoServerError\<close>. \<open>sorted_instances\<close> is Python's \<^verbatim>\<open>sorted\<close> on instance objects, an
  order the script does not control.
\<close>

record ec2_conn =
  get_all_instances :: "string list option \<Rightarrow> string + ec2_instance list list"

record rds_conn =
  get_all_dbinstances :: "string + db_instance list"

record record_set =
  rs_name :: string
  resource_records :: "string list"

record zone =
  zone_name :: string
  zone_id :: string

record adapter =
  ec2_connect_to_region :: "string \<Rightarrow> ec2_conn option"
  connect_euca :: "string option \<Rightarrow> ec2_conn"
  rds_connect_to_region :: "string \<Rightarrow> rds_conn option"
  get_zones :: "zone list"
  get_all_rrsets :: "string \<Rightarrow> record_set list"
  sorted_instances :: "ec2_instance list \<Rightarrow> ec2_instance list"

text \<open>What \<^verbatim>\<open>parse_cli_args\<close> and \<^verbatim>\<open>read_settings\<close> leave on the object.\<close>

record settings =
  tags_only :: bool
  host :: "string option"
  refresh_cache :: bool
  eucalyptus :: bool
  eucalyptus_host :: "string option"
  regions :: "string list"
  destination_variable :: string
  vpc_destination_variable :: string
  route53_enabled :: bool
  route53_excluded_zones :: "string list"
  cache_path_cache :: string
  cache_path_tags :: string
  cache_path_index :: string
  cache_max_age :: int

text \<open>
  A file holds the text that \<^verbatim>\<open>json.dumps\<close> printed, represented by the JSON value it
  denotes (object keys in the order printed), or text that is not JSON.
\<close>

datatype file_text = JsonText json | NotJson

record cache_file =
  mtime :: real
  content :: file_text

text \<open>
  The mutable part: \<^verbatim>\<open>self.inventory\<close>, \<^verbatim>\<open>self.index\<close> (a JSON value, since
  \<^verbatim>\<open>load_index_from_cache\<close> assigns whatever the index file holds),
  \<^verbatim>\<open>self.route53_records\<close> and the files on disk. \<open>refreshes\<close> is a ghost counter of the calls
  of \<^verbatim>\<open>do_api_calls_update_cache\<close>; no decision of the model reads it.
\<close>

record run_state =
  inventory :: "string list dict"
  index :: json
  route53_records :: "string list dict"
  fs :: "string \<Rightarrow> cache_file option"
  refreshes :: nat

subsection \<open>Operations of Python on the index value\<close>

text \<open>\<^verbatim>\<open>self.index[dest] = [region, instance.id]\<close>\<close>

fun py_setitem :: "json \<Rightarrow> string \<Rightarrow> json \<Rightarrow> error + json" where
  "py_setitem (JObj d) k v = Inr (JObj (dict_set d k v))"
| "py_setitem j k v = Inl TypeError"

text \<open>\<^verbatim>\<open>len(self.index)\<close>\<close>

fun py_len :: "json \<Rightarrow> error + nat" where
  "py_len (JObj d) = Inr (length d)"
| "py_len (JList xs) = Inr (length xs)"
| "py_len (JStr s) = Inr (length s)"
| "py_len j = Inl TypeError"

text \<open>\<^verbatim>\<open>self.args.host in self.index\<close>\<close>

fun py_contains :: "json \<Rightarrow> string \<Rightarrow> error + bool" where
  "py_contains (JObj d) k = Inr (dict_has d k)"
| "py_contains (JList xs) k = Inr (JStr k \<in> set xs)"
| "py_contains (JStr s) k = Inr (sublist k s)"
| "py_contains j k = Inl TypeError"

text \<open>
  \<^verbatim>\<open>(region, instance_id) = self.index[self.args.host]\<close>. The entries the script writes are
  two-element lists of strings; an entry of another shape is reported here as the error
  Python raises on unpacking it or on using it as a region name.
\<close>

fun py_index_entry :: "json \<Rightarrow> string \<Rightarrow> error + string \<times> string" where
  "py_index_entry (JObj d) k =
     (case map_of d k of
        None \<Rightarrow> Inl KeyError
      | Some (JList [JStr region, JStr instance_id]) \<Rightarrow> Inr (region, instance_id)
      | Some other \<Rightarrow> Inl ValueError)"
| "py_index_entry j k = Inl TypeError"

subsection \<open>Name resolution (Route53)\<close>

text \<open>
  \<^verbatim>\<open>self.route53_records\<close> maps a resource value to the set of record names that point to
  it; the set is a list without duplicates, in the order the names were added.
\<close>

definition add_record_name :: "string list dict \<Rightarrow> string \<Rightarrow> string \<Rightarrow> string list dict" where
  "add_record_name recs resource record_name =
     (case map_of recs resource of
        None \<Rightarrow> dict_set recs resource [record_name]
      | Some names \<Rightarrow>
          if record_name \<in> set names then recs
          else dict_set recs resource (names @ [record_name]))"

definition strip_dot :: "string \<Rightarrow> string" where
  "strip_dot record_name =
     (if record_name \<noteq> [] \<and> last record_name = CHR ''.'' then butlast record_name
      else record_name)"

definition add_record_set :: "string list dict \<Rightarrow> record_set \<Rightarrow> string list dict" where
  "add_record_set recs rs =
     foldl (\<lambda>r resource. add_record_name r resource (strip_dot (rs_name rs)))
       recs (resource_records rs)"

definition get_route53_records :: "settings \<Rightarrow> adapter \<Rightarrow> run_state \<Rightarrow> run_state" where
  "get_route53_records cfg A st =
     (let route53_zones =
            filter (\<lambda>z. butlast (zone_name z) \<notin> set (route53_excluded_zones cfg)) (get_zones A)
      in st\<lparr>route53_records :=
              foldl (\<lambda>recs z. foldl add_record_set recs (get_all_rrsets A (zone_id z)))
                [] route53_zones\<rparr>)"

definition set_update :: "string list \<Rightarrow> string list \<Rightarrow> string list" where
  "set_update name_list names = name_list @ filter (\<lambda>n. n \<notin> set name_list) (remdups names)"

text \<open>
  \<^verbatim>\<open>list(name_list)\<close> iterates a Python set, in an order Python does not specify; the model
  lists the names in the order they entered the set.
\<close>

definition get_instance_route53_names :: "run_state \<Rightarrow> ec2_instance \<Rightarrow> string list" where
  "get_instance_route53_names st i =
     foldl (\<lambda>name_list value.
              case value of
                None \<Rightarrow> name_list
              | Some a \<Rightarrow>
                  (case map_of (route53_records st) a of
                     None \<Rightarrow> name_list
                   | Some names \<Rightarrow> set_update name_list names))
       [] [public_dns_name i, private_dns_name i, ip_address i, private_ip_address i]"

subsection \<open>The grouping engine: \<open>add_instance\<close> and \<open>add_rds_instance\<close>\<close>

definition opt_truthy :: "string option \<Rightarrow> bool" where
  "opt_truthy x = (case x of None \<Rightarrow> False | Some s \<Rightarrow> s \<noteq> [])"

text \<open>The body of the loop over \<^verbatim>\<open>instance.tags\<close>.\<close>

definition add_tag :: "string \<Rightarrow> string list dict \<Rightarrow> string \<times> string \<Rightarrow> string list dict" where
  "add_tag dest my_dict kv =
     (let key = to_safe (''tag_'' @ fst kv @ ''='' @ snd kv)
      in keep_first (push my_dict key dest) (''first_in_'' @ key) dest)"

text \<open>
  Everything \<open>add_instance\<close> does to the inventory once the destination is known, up to the
  security groups; \<open>None\<close> is the \<^verbatim>\<open>sys.exit(1)\<close> of the \<^verbatim>\<open>except AttributeError\<close> branch.
\<close>

definition group_instance :: "settings \<Rightarrow> run_state \<Rightarrow> ec2_instance \<Rightarrow> string \<Rightarrow> string
    \<Rightarrow> string list dict option" where
  "group_instance cfg st i region dest =
     (let inv1 = dict_set (inventory st) (iid i) [dest];
          inv2 = push inv1 region dest;
          inv3 = push inv2 (placement i) dest;
          inv4 = push inv3 (to_safe (''type_'' @ instance_type i)) dest;
          inv5 = (case key_name i of
                    None \<Rightarrow> inv4
                  | Some k \<Rightarrow> if k = [] then inv4 else push inv4 (to_safe (''key_'' @ k)) dest)
      in case groups i of
           None \<Rightarrow> None
         | Some gs \<Rightarrow>
             (let inv6 = foldl (\<lambda>m g. push m (to_safe (''security_group_'' @ snd g)) dest)
                           inv5 gs;
                  inv7 = foldl (add_tag dest) inv6 (tags i)
              in Some (if route53_enabled cfg
                       then foldl (\<lambda>m name. push m name dest) inv7
                              (get_instance_route53_names st i)
                       else inv7)))"

text \<open>\<^verbatim>\<open># Select the best destination address\<close>: the value \<open>dest\<close> gets.\<close>

definition select_destination :: "settings \<Rightarrow> ec2_instance \<Rightarrow> error + pyval" where
  "select_destination cfg i =
     (if opt_truthy (subnet_id i) then getattr i (vpc_destination_variable cfg)
      else getattr i (destination_variable cfg))"

text \<open>
  A destination that is a list or a dictionary cannot be a dictionary key (Python raises
  \<open>TypeError\<close>); the model reports every destination that is not a string that way.
\<close>

definition add_instance :: "settings \<Rightarrow> run_state \<Rightarrow> ec2_instance \<Rightarrow> string
    \<Rightarrow> error + run_state" where
  "add_instance cfg st i region =
     (if state i \<noteq> ''running'' then Inr st
      else
        case select_destination cfg i of
          Inl e \<Rightarrow> Inl e
        | Inr dest \<Rightarrow>
            if \<not> truthy dest then Inr st
            else
              (case dest of
                 VStr d \<Rightarrow>
                   (case py_setitem (index st) d (JList [JStr region, JStr (iid i)]) of
                      Inl e \<Rightarrow> Inl e
                    | Inr idx \<Rightarrow>
                        (case group_instance cfg st i region d of
                           None \<Rightarrow> Inl (SystemExit 1)
                         | Some groups' \<Rightarrow>
                             Inr (st\<lparr>inventory := groups', index := idx\<rparr>)))
               | _ \<Rightarrow> Inl TypeError))"

text \<open>
  \<^verbatim>\<open>dest = instance.endpoint[0]\<close>: subscripting \<open>None\<close> raises \<open>TypeError\<close>. A missing
  \<open>security_group\<close> attribute is the \<^verbatim>\<open>sys.exit(1)\<close>; \<^verbatim>\<open>instance.parameter_group.name\<close> on
  \<open>None\<close> raises \<open>AttributeError\<close> outside the \<^verbatim>\<open>try\<close>.
\<close>

definition add_rds_instance :: "settings \<Rightarrow> run_state \<Rightarrow> db_instance \<Rightarrow> string
    \<Rightarrow> error + run_state" where
  "add_rds_instance cfg st i region =
     (if status i \<noteq> ''available'' then Inr st
      else
        case endpoint i of
          None \<Rightarrow> Inl TypeError
        | Some (dest, port) \<Rightarrow>
            (case dest of
               None \<Rightarrow> Inr st
             | Some d \<Rightarrow>
                 if d = [] then Inr st
                 else
                   (case py_setitem (index st) d (JList [JStr region, JStr (db_id i)]) of
                      Inl e \<Rightarrow> Inl e
                    | Inr idx \<Rightarrow>
                        (let inv1 = dict_set (inventory st) (db_id i) [d];
                             inv2 = push inv1 region d;
                             inv3 = push inv2 (availability_zone i) d;
                             inv4 = push inv3 (to_safe (''type_'' @ instance_class i)) d
                         in case security_group i of
                              None \<Rightarrow> Inl (SystemExit 1)
                            | Some sg \<Rightarrow>
                                (let inv5 = (case sg of
                                               None \<Rightarrow> inv4
                                             | Some name \<Rightarrow>
                                                 push inv4 (to_safe (''security_group_'' @ name)) d);
                                     inv6 = push inv5 (to_safe (''rds_'' @ engine i)) d
                                 in case parameter_group i of
                                      None \<Rightarrow> Inl AttributeError
                                    | Some pg \<Rightarrow>
                                        Inr (st\<lparr>inventory :=
                                                   push inv6
                                                     (to_safe (''rds_parameter_group_'' @ pg)) d,
                                                 index := idx\<rparr>))))))"

subsection \<open>Discovery per region\<close>

fun add_instances :: "settings \<Rightarrow> run_state \<Rightarrow> ec2_instance list \<Rightarrow> string
    \<Rightarrow> error + run_state" where
  "add_instances cfg st [] region = Inr st"
| "add_instances cfg st (i # is) region =
     (case add_instance cfg st i region of
        Inl e \<Rightarrow> Inl e
      | Inr st' \<Rightarrow> add_instances cfg st' is region)"

fun add_rds_instances :: "settings \<Rightarrow> run_state \<Rightarrow> db_instance list \<Rightarrow> string
    \<Rightarrow> error + run_state" where
  "add_rds_instances cfg st [] region = Inr st"
| "add_rds_instances cfg st (i # is) region =
     (case add_rds_instance cfg st i region of
        Inl e \<Rightarrow> Inl e
      | Inr st' \<Rightarrow> add_rds_instances cfg st' is region)"

text \<open>
  The connection of the compute API: \<^verbatim>\<open>boto.connect_euca\<close> builds a connection object,
  \<^verbatim>\<open>ec2.connect_to_region\<close> returns \<open>None\<close> for a region it does not know.
\<close>

definition connect :: "settings \<Rightarrow> adapter \<Rightarrow> string \<Rightarrow> ec2_conn option" where
  "connect cfg A region =
     (if eucalyptus cfg then Some (connect_euca A (eucalyptus_host cfg))
      else ec2_connect_to_region A region)"

text \<open>
  \<^verbatim>\<open>if conn is None: ... sys.exit(1)\<close>, and \<^verbatim>\<open>except boto.exception.BotoServerError\<close> with its
  \<^verbatim>\<open>sys.exit(1)\<close>. The errors of \<open>add_instance\<close> are not of that class and pass through.
\<close>

definition get_instances_by_region :: "settings \<Rightarrow> adapter \<Rightarrow> run_state \<Rightarrow> string
    \<Rightarrow> error + run_state" where
  "get_instances_by_region cfg A st region =
     (case connect cfg A region of
        None \<Rightarrow> Inl (SystemExit 1)
      | Some conn \<Rightarrow>
          (case get_all_instances conn None of
             Inl e \<Rightarrow> Inl (SystemExit 1)
           | Inr reservations \<Rightarrow>
               add_instances cfg st (concat (map (sorted_instances A) reservations)) region))"

text \<open>\<^verbatim>\<open>if conn:\<close> has no \<^verbatim>\<open>else\<close>: without a connection nothing is done.\<close>

definition get_rds_instances_by_region :: "settings \<Rightarrow> adapter \<Rightarrow> run_state \<Rightarrow> string
    \<Rightarrow> error + run_state" where
  "get_rds_instances_by_region cfg A st region =
     (case rds_connect_to_region A region of
        None \<Rightarrow> Inr st
      | Some conn \<Rightarrow>
          (case get_all_dbinstances conn of
             Inl e \<Rightarrow> Inl (SystemExit 1)
           | Inr instances \<Rightarrow> add_rds_instances cfg st instances region))"

fun all_regions :: "settings \<Rightarrow> adapter \<Rightarrow> run_state \<Rightarrow> string list \<Rightarrow> error + run_state" where
  "all_regions cfg A st [] = Inr st"
| "all_regions cfg A st (region # rs) =
     (case get_instances_by_region cfg A st region of
        Inl e \<Rightarrow> Inl e
      | Inr st1 \<Rightarrow>
          (case get_rds_instances_by_region cfg A st1 region of
             Inl e \<Rightarrow> Inl e
           | Inr st2 \<Rightarrow> all_regions cfg A st2 rs))"

subsection \<open>Serialisation and the cache store\<close>

text \<open>
  \<^verbatim>\<open>json.dumps(data, sort_keys=True, indent=2)\<close> prints the keys of every object in sorted
  order; the text is represented by the value with its keys in that order.
\<close>

fun sort_keys :: "json \<Rightarrow> json" where
  "sort_keys (JList xs) = JList (map sort_keys xs)"
| "sort_keys (JObj d) = JObj (sort_key fst (map (\<lambda>kv. (fst kv, sort_keys (snd kv))) d))"
| "sort_keys j = j"

definition dumps :: "bool \<Rightarrow> json \<Rightarrow> json" where
  "dumps pretty data = (if pretty then sort_keys data else data)"

text \<open>
  \<^verbatim>\<open>data = [key for key in data.keys() if 'tag_' in key]\<close>: \<^verbatim>\<open>in\<close> on strings is the
  substring test; a value without \<^verbatim>\<open>keys\<close> raises \<open>AttributeError\<close>.
\<close>

definition json_format_dict :: "settings \<Rightarrow> json \<Rightarrow> bool \<Rightarrow> error + json" where
  "json_format_dict cfg data pretty =
     (if tags_only cfg then
        (case data of
           JObj d \<Rightarrow> Inr (dumps pretty (JList (map JStr (filter (sublist ''tag_'') (map fst d)))))
         | _ \<Rightarrow> Inl AttributeError)
      else Inr (dumps pretty data))"

definition inventory_json :: "string list dict \<Rightarrow> json" where
  "inventory_json groups' = JObj (map (\<lambda>kv. (fst kv, JList (map JStr (snd kv)))) groups')"

text \<open>The file is opened for writing after the text is made; \<open>now\<close> is the clock.\<close>

definition write_to_cache :: "settings \<Rightarrow> real \<Rightarrow> run_state \<Rightarrow> json \<Rightarrow> string
    \<Rightarrow> error + run_state" where
  "write_to_cache cfg now st data filename =
     (case json_format_dict cfg data True of
        Inl e \<Rightarrow> Inl e
      | Inr json_data \<Rightarrow>
          Inr (st\<lparr>fs := (fs st)(filename \<mapsto> \<lparr>mtime = now, content = JsonText json_data\<rparr>)\<rparr>))"

definition do_api_calls_update_cache :: "settings \<Rightarrow> adapter \<Rightarrow> real \<Rightarrow> run_state
    \<Rightarrow> error + run_state" where
  "do_api_calls_update_cache cfg A now st =
     (let st0 = st\<lparr>refreshes := Suc (refreshes st)\<rparr>;
          st1 = (if route53_enabled cfg then get_route53_records cfg A st0 else st0)
      in case all_regions cfg A st1 (regions cfg) of
           Inl e \<Rightarrow> Inl e
         | Inr st2 \<Rightarrow>
             (case write_to_cache cfg now st2 (inventory_json (inventory st2))
                     (if tags_only cfg then cache_path_tags cfg else cache_path_cache cfg) of
                Inl e \<Rightarrow> Inl e
              | Inr st3 \<Rightarrow> write_to_cache cfg now st3 (index st3) (cache_path_index cfg)))"

definition isfile :: "run_state \<Rightarrow> string \<Rightarrow> bool" where
  "isfile st path = (fs st path \<noteq> None)"

text \<open>
  \<^verbatim>\<open>os.path.getmtime\<close> and \<^verbatim>\<open>time()\<close> return doubles (IEEE 754 binary64); a finite
  double is the real number it denotes. An operation on doubles returns the exact result
  rounded to the nearest double: 53 significant bits, exponent of the last bit at least
  -1074, a tie to the even mantissa. A rounded magnitude of \<open>2 ^ 1024\<close> or more is an
  infinity.
\<close>

definition round_half_even :: "real \<Rightarrow> int" where
  "round_half_even y =
     (let f = \<lfloor>y\<rfloor>
      in if y - of_int f < 1 / 2 then f
         else if 1 / 2 < y - of_int f then f + 1
         else if even f then f else f + 1)"

definition round_double :: "real \<Rightarrow> real" where
  "round_double x =
     (if x = 0 then 0
      else let e = max (\<lfloor>log 2 \<bar>x\<bar>\<rfloor> - 52) (- 1074)
           in of_int (round_half_even (x / 2 powr of_int e)) * 2 powr of_int e)"

datatype pyfloat = Finite real | PosInf | NegInf

definition float_add :: "real \<Rightarrow> real \<Rightarrow> pyfloat" where
  "float_add x y =
     (let r = round_double (x + y)
      in if 2 ^ 1024 \<le> r then PosInf else if r \<le> - (2 ^ 1024) then NegInf else Finite r)"

text \<open>
  The conversion of the integer operand of \<^verbatim>\<open>mod_time + self.cache_max_age\<close>: an integer
  too large for a double raises \<open>OverflowError\<close>.
\<close>

definition float_of_int :: "int \<Rightarrow> error + real" where
  "float_of_int n =
     (let r = round_double (of_int n)
      in if 2 ^ 1024 \<le> \<bar>r\<bar> then Inl OverflowError else Inr r)"

text \<open>\<^verbatim>\<open>x > current_time\<close> for a finite \<open>current_time\<close>.\<close>

fun float_gt :: "pyfloat \<Rightarrow> real \<Rightarrow> bool" where
  "float_gt (Finite r) current_time = (current_time < r)"
| "float_gt PosInf current_time = True"
| "float_gt NegInf current_time = False"

definition is_cache_valid :: "settings \<Rightarrow> real \<Rightarrow> run_state \<Rightarrow> error + bool" where
  "is_cache_valid cfg current_time st =
     (let to_check = (if tags_only cfg then cache_path_tags cfg else cache_path_cache cfg)
      in case fs st to_check of
           None \<Rightarrow> Inr False
         | Some f \<Rightarrow>
             (case float_of_int (cache_max_age cfg) of
                Inl e \<Rightarrow> Inl e
              | Inr max_age \<Rightarrow>
                  if float_gt (float_add (mtime f) max_age) current_time
                  then (if isfile st (cache_path_index cfg) then Inr True else Inr False)
                  else Inr False))"

text \<open>\<^verbatim>\<open>open\<close> of a missing file raises \<open>IOError\<close>, \<^verbatim>\<open>json.loads\<close> of other text \<open>ValueError\<close>.\<close>

definition load_index_from_cache :: "settings \<Rightarrow> run_state \<Rightarrow> error + run_state" where
  "load_index_from_cache cfg st =
     (case fs st (cache_path_index cfg) of
        None \<Rightarrow> Inl IOError
      | Some f \<Rightarrow>
          (case content f of
             NotJson \<Rightarrow> Inl ValueError
           | JsonText json_index \<Rightarrow> Inr (st\<lparr>index := json_index\<rparr>)))"

definition get_inventory_from_cache :: "settings \<Rightarrow> run_state \<Rightarrow> error + file_text" where
  "get_inventory_from_cache cfg st =
     (case fs st (if tags_only cfg then cache_path_tags cfg else cache_path_cache cfg) of
        None \<Rightarrow> Inl IOError
      | Some f \<Rightarrow> Inr (content f))"

subsection \<open>Host details\<close>

text \<open>
  \<open>get_instance\<close> has no \<^verbatim>\<open>try\<close>: a \<open>BotoServerError\<close> propagates. The loops return the
  first instance of the first reservation that has one, and \<open>None\<close> when there is none.
\<close>

definition get_instance :: "settings \<Rightarrow> adapter \<Rightarrow> string \<Rightarrow> string
    \<Rightarrow> error + ec2_instance option" where
  "get_instance cfg A region instance_id =
     (case connect cfg A region of
        None \<Rightarrow> Inl (SystemExit 1)
      | Some conn \<Rightarrow>
          (case get_all_instances conn (Some [instance_id]) of
             Inl e \<Rightarrow> Inl (BotoServerError e)
           | Inr reservations \<Rightarrow>
               (case concat reservations of
                  [] \<Rightarrow> Inr None
                | i # rest \<Rightarrow> Inr (Some i))))"

text \<open>
  \<^verbatim>\<open>value.strip()\<close> on a Python 2 \<open>str\<close>: blank, tab, line feed, VT, FF, CR. (On a
  \<open>unicode\<close> string Python also strips the other Unicode white space.)
\<close>

definition is_space :: "char \<Rightarrow> bool" where
  "is_space c = (c = CHR '' '' \<or> in_range 9 13 c)"

definition strip :: "string \<Rightarrow> string" where
  "strip s = rev (dropWhile is_space (rev (dropWhile is_space s)))"

fun join :: "string \<Rightarrow> string list \<Rightarrow> string" where
  "join sep [] = []"
| "join sep [x] = x"
| "join sep (x # y # ys) = x @ sep @ join sep (y # ys)"

text \<open>
  One round of the loop over \<^verbatim>\<open>vars(instance)\<close>. The tests on the type of the value come
  first, then the tests on the key. A value of a kind the branch of its key cannot take
  apart makes Python raise; the model reports \<open>AttributeError\<close>.
\<close>

definition host_var :: "json dict \<Rightarrow> string \<times> pyval \<Rightarrow> error + json dict" where
  "host_var instance_vars' kv =
     (let key = to_safe (''ec2_'' @ fst kv)
      in case snd kv of
           VInt n \<Rightarrow> Inr (dict_set instance_vars' key (JInt n))
         | VBool b \<Rightarrow> Inr (dict_set instance_vars' key (JBool b))
         | VStr s \<Rightarrow> Inr (dict_set instance_vars' key (JStr (strip s)))
         | VNone \<Rightarrow> Inr (dict_set instance_vars' key (JStr []))
         | v \<Rightarrow>
             if key = ''ec2_region'' then
               (case v of
                  VRegion name \<Rightarrow> Inr (dict_set instance_vars' key (JStr name))
                | _ \<Rightarrow> Inl AttributeError)
             else if key = ''ec2_tags'' then
               (case v of
                  VTags ts \<Rightarrow>
                    Inr (foldl (\<lambda>d t. dict_set d (to_safe (''ec2_tag_'' @ fst t)) (JStr (snd t)))
                           instance_vars' ts)
                | _ \<Rightarrow> Inl AttributeError)
             else if key = ''ec2_groups'' then
               (case v of
                  VGroups gs \<Rightarrow>
                    Inr (dict_set
                           (dict_set instance_vars' ''ec2_security_group_ids''
                              (JStr (join '','' (map fst gs))))
                           ''ec2_security_group_names'' (JStr (join '','' (map snd gs))))
                | _ \<Rightarrow> Inl AttributeError)
             else Inr instance_vars')"

fun host_vars :: "json dict \<Rightarrow> (string \<times> pyval) list \<Rightarrow> error + json dict" where
  "host_vars instance_vars' [] = Inr instance_vars'"
| "host_vars instance_vars' (kv # kvs) =
     (case host_var instance_vars' kv of
        Inl e \<Rightarrow> Inl e
      | Inr d \<Rightarrow> host_vars d kvs)"

text \<open>
  The part of \<open>get_host_info\<close> after the index lookup: fetch the record by
  \<open>get_instance\<close> and flatten it. \<^verbatim>\<open>vars(None)\<close> raises \<open>TypeError\<close>.
\<close>

definition describe_instance :: "settings \<Rightarrow> adapter \<Rightarrow> string \<Rightarrow> string \<Rightarrow> error + json" where
  "describe_instance cfg A region instance_id =
     (case get_instance cfg A region instance_id of
        Inl e \<Rightarrow> Inl e
      | Inr None \<Rightarrow> Inl TypeError
      | Inr (Some i) \<Rightarrow>
          (case host_vars [] (instance_vars i) of
             Inl e \<Rightarrow> Inl e
           | Inr instance_vars' \<Rightarrow> json_format_dict cfg (JObj instance_vars') True))"

text \<open>\<^verbatim>\<open>(region, instance_id) = self.index[self.args.host]\<close> and what follows it.\<close>

definition lookup_host :: "settings \<Rightarrow> adapter \<Rightarrow> string \<Rightarrow> run_state
    \<Rightarrow> error + json \<times> run_state" where
  "lookup_host cfg A h st =
     (case py_index_entry (index st) h of
        Inl e \<Rightarrow> Inl e
      | Inr (region, instance_id) \<Rightarrow>
          (case describe_instance cfg A region instance_id of
             Inl e \<Rightarrow> Inl e
           | Inr text \<Rightarrow> Inr (text, st)))"

text \<open>\<open>h\<close> is \<^verbatim>\<open>self.args.host\<close>; the result is the text to print and the state left.\<close>

definition get_host_info :: "settings \<Rightarrow> adapter \<Rightarrow> real \<Rightarrow> string \<Rightarrow> run_state
    \<Rightarrow> error + json \<times> run_state" where
  "get_host_info cfg A now h st =
     (case py_len (index st) of
        Inl e \<Rightarrow> Inl e
      | Inr n \<Rightarrow>
          (case (if n = 0 then load_index_from_cache cfg st else Inr st) of
             Inl e \<Rightarrow> Inl e
           | Inr st1 \<Rightarrow>
               (case py_contains (index st1) h of
                  Inl e \<Rightarrow> Inl e
                | Inr True \<Rightarrow> lookup_host cfg A h st1
                | Inr False \<Rightarrow>
                    (case do_api_calls_update_cache cfg A now st1 of
                       Inl e \<Rightarrow> Inl e
                     | Inr st2 \<Rightarrow>
                         (case py_contains (index st2) h of
                            Inl e \<Rightarrow> Inl e
                          | Inr True \<Rightarrow> lookup_host cfg A h st2
                          | Inr False \<Rightarrow>
                              (case json_format_dict cfg (JObj []) True of
                                 Inl e \<Rightarrow> Inl e
                               | Inr text \<Rightarrow> Inr (text, st2)))))))"

subsection \<open>The main execution path (\<open>__init__\<close>)\<close>

definition init_state :: "(string \<Rightarrow> cache_file option) \<Rightarrow> run_state" where
  "init_state files =
     \<lparr>inventory = [], index = JObj [], route53_records = [], fs = files, refreshes = 0\<rparr>"

text \<open>\<^verbatim>\<open>--list\<close> has the default \<open>True\<close>, so the \<^verbatim>\<open>elif\<close> is taken whenever no host is given.\<close>

definition main :: "settings \<Rightarrow> adapter \<Rightarrow> real \<Rightarrow> (string \<Rightarrow> cache_file option)
    \<Rightarrow> error + file_text \<times> run_state" where
  "main cfg A now files =
     (let st = init_state files
      in case (if refresh_cache cfg then do_api_calls_update_cache cfg A now st
               else
                 (case is_cache_valid cfg now st of
                    Inl e \<Rightarrow> Inl e
                  | Inr valid \<Rightarrow>
                      if \<not> valid then do_api_calls_update_cache cfg A now st else Inr st)) of
           Inl e \<Rightarrow> Inl e
         | Inr st1 \<Rightarrow>
             (case (if opt_truthy (host cfg) then host cfg else None) of
                Some h \<Rightarrow>
                  (case get_host_info cfg A now h st1 of
                     Inl e \<Rightarrow> Inl e
                   | Inr (text, st2) \<Rightarrow> Inr (JsonText text, st2))
              | None \<Rightarrow>
                  if length (inventory st1) = 0 then
                    (case get_inventory_from_cache cfg st1 of
                       Inl e \<Rightarrow> Inl e
                     | Inr text \<Rightarrow> Inr (text, st1))
                  else
                    (case json_format_dict cfg (inventory_json (inventory st1)) True of
                       Inl e \<Rightarrow> Inl e
                     | Inr text \<Rightarrow> Inr (JsonText text, st1))))"

subsection \<open>A small deployment\<close>

text \<open>
  The record of the end-to-end example: one running instance in region us-east-1, zone
  us-east-1a, type t2.micro, tag env=prod, public address 1.2.3.4; a second one with the
  same tag at 5.6.7.8; and one available database instance.
\<close>

definition example_settings :: settings where
  "example_settings =
     \<lparr>tags_only = False, host = None, refresh_cache = False,
      eucalyptus = False, eucalyptus_host = None,
      regions = [''us-east-1''],
      destination_variable = ''ip_address'',
      vpc_destination_variable = ''private_ip_address'',
      route53_enabled = False, route53_excluded_zones = [],
      cache_path_cache = ''/tmp/ansible-ec2.cache'',
      cache_path_tags = ''/tmp/ansible-ec2.tags.cache'',
      cache_path_index = ''/tmp/ansible-ec2.index'',
      cache_max_age = 300\<rparr>"

definition example_instance :: ec2_instance where
  "example_instance =
     \<lparr>iid = ''i-1'', state = ''running'', subnet_id = None,
      placement = ''us-east-1a'', instance_type = ''t2.micro'', key_name = None,
      groups = Some [], tags = [(''env'', ''prod'')],
      public_dns_name = None, private_dns_name = None,
      ip_address = Some ''1.2.3.4'', private_ip_address = None,
      other_vars = []\<rparr>"

definition second_instance :: ec2_instance where
  "second_instance = example_instance\<lparr>iid := ''i-2'', ip_address := Some ''5.6.7.8''\<rparr>"

definition example_db :: db_instance where
  "example_db =
     \<lparr>db_id = ''db-1'', status = ''available'',
      endpoint = Some (Some ''db-1.rds.example'', 3306),
      availability_zone = ''us-east-1a'', instance_class = ''db.t2.micro'',
      security_group = Some None, engine = ''mysql'', parameter_group = Some ''default''\<rparr>"

text \<open>
  A provider that knows the compute API of us-east-1 only, with the instances given, and
  has no database endpoint in any region.
\<close>

definition example_adapter :: "ec2_instance list \<Rightarrow> adapter" where
  "example_adapter is =
     \<lparr>ec2_connect_to_region =
        (\<lambda>region. if region = ''us-east-1''
                   then Some \<lparr>get_all_instances =
                                (\<lambda>ids. case ids of
                                         None \<Rightarrow> Inr [is]
                                       | Some wanted \<Rightarrow>
                                           Inr [filter (\<lambda>i. iid i \<in> set wanted) is])\<rparr>
                   else None),
      connect_euca = (\<lambda>h. \<lparr>get_all_instances = (\<lambda>ids. Inr [])\<rparr>),
      rds_connect_to_region = (\<lambda>region. None),
      get_zones = [],
      get_all_rrsets = (\<lambda>z. []),
      sorted_instances = (\<lambda>xs. xs)\<rparr>"

definition tags_settings :: settings where
  "tags_settings = example_settings\<lparr>tags_only := True\<rparr>"

text \<open>The state after the first record, after the second, and after the database record.\<close>

definition after_first :: run_state where
  "after_first =
     \<lparr>inventory =
        [(''i-1'', [''1.2.3.4'']), (''us-east-1'', [''1.2.3.4'']),
         (''us-east-1a'', [''1.2.3.4'']), (''type_t2_micro'', [''1.2.3.4'']),
         (''tag_env_prod'', [''1.2.3.4'']), (''first_in_tag_env_prod'', [''1.2.3.4''])],
      index = JObj [(''1.2.3.4'', JList [JStr ''us-east-1'', JStr ''i-1''])],
      route53_records = [], fs = Map.empty, refreshes = 0\<rparr>"

definition after_second :: run_state where
  "after_second =
     \<lparr>inventory =
        [(''i-1'', [''1.2.3.4'']), (''us-east-1'', [''1.2.3.4'', ''5.6.7.8'']),
         (''us-east-1a'', [''1.2.3.4'', ''5.6.7.8'']),
         (''type_t2_micro'', [''1.2.3.4'', ''5.6.7.8'']),
         (''tag_env_prod'', [''1.2.3.4'', ''5.6.7.8'']),
         (''first_in_tag_env_prod'', [''1.2.3.4'']), (''i-2'', [''5.6.7.8''])],
      index = JObj [(''1.2.3.4'', JList [JStr ''us-east-1'', JStr ''i-1'']),
                    (''5.6.7.8'', JList [JStr ''us-east-1'', JStr ''i-2''])],
      route53_records = [], fs = Map.empty, refreshes = 0\<rparr>"

definition after_db :: run_state where
  "after_db =
     \<lparr>inventory =
        [(''db-1'', [''db-1.rds.example'']), (''us-east-1'', [''db-1.rds.example'']),
         (''us-east-1a'', [''db-1.rds.example'']),
         (''type_db_t2_micro'', [''db-1.rds.example'']),
         (''rds_mysql'', [''db-1.rds.example'']),
         (''rds_parameter_group_default'', [''db-1.rds.example''])],
      index = JObj [(''db-1.rds.example'', JList [JStr ''us-east-1'', JStr ''db-1''])],
      route53_records = [], fs = Map.empty, refreshes = 0\<rparr>"

text \<open>A cache directory holding an index written by an earlier run.\<close>

definition stale_files :: "string \<Rightarrow> cache_file option" where
  "stale_files =
     [''/tmp/ansible-ec2.index'' \<mapsto>
        \<lparr>mtime = 0,
         content = JsonText (JObj [(''9.9.9.9'', JList [JStr ''us-east-1'', JStr ''i-0''])])\<rparr>,
      ''/tmp/ansible-ec2.cache'' \<mapsto>
        \<lparr>mtime = 100, content = JsonText (JObj [(''i-0'', JList [JStr ''9.9.9.9''])])\<rparr>]"

text \<open>
  A cache whose payload file has the modification time 100.001234567, that is the double
  \<open>7036961292695793 / 2 ^ 46\<close>. The double of 400.001234567 is
  \<open>1759224034124687 / 2 ^ 42\<close>, which is \<open>1 / 2 ^ 46\<close> below the exact sum of the first and 300.
\<close>

definition edge_mtime :: real where
  "edge_mtime = 7036961292695793 / 2 ^ 46"

definition edge_now :: real where
  "edge_now = 1759224034124687 / 2 ^ 42"

definition edge_files :: "string \<Rightarrow> cache_file option" where
  "edge_files =
     stale_files(''/tmp/ansible-ec2.cache'' \<mapsto>
        \<lparr>mtime = edge_mtime,
         content = JsonText (JObj [(''i-0'', JList [JStr ''9.9.9.9''])])\<rparr>)"

text \<open>A provider whose database API lists one available instance that has no endpoint.\<close>

definition no_endpoint_adapter :: adapter where
  "no_endpoint_adapter =
     (example_adapter [])\<lparr>rds_connect_to_region :=
        (\<lambda>region. Some \<lparr>get_all_dbinstances = Inr [example_db\<lparr>endpoint := None\<rparr>]\<rparr>)\<rparr>"

section \<open>Properties\<close>

subsection \<open>Evaluation of the model\<close>

lemmas grouping_defs =
  add_instance_def add_rds_instance_def select_destination_def opt_truthy_def getattr_def
  instance_vars_def opt_val_def group_instance_def push_def add_tag_def keep_first_def
  to_safe_def keeps_def in_range_def Let_def

lemmas refresh_defs =
  do_api_calls_update_cache_def get_instances_by_region_def get_rds_instances_by_region_def
  connect_def write_to_cache_def json_format_dict_def dumps_def inventory_json_def sublist_code

lemmas example_defs =
  example_settings_def tags_settings_def example_instance_def second_instance_def
  example_db_def example_adapter_def init_state_def stale_files_def

lemma first_record_added:
  "add_instance example_settings (init_state Map.empty) example_instance ''us-east-1''
   = Inr after_first"
  by (simp add: grouping_defs example_defs after_first_def)

lemma second_record_added:
  "add_instance example_settings after_first second_instance ''us-east-1'' = Inr after_second"
  by (simp add: grouping_defs example_defs after_first_def after_second_def)

lemma db_record_added:
  "add_rds_instance example_settings (init_state Map.empty) example_db ''us-east-1''
   = Inr after_db"
  by (simp add: grouping_defs example_defs after_db_def)

subsection \<open>Dictionaries, \<open>push\<close> and \<open>keep_first\<close>\<close>

lemma map_of_dict_set: "map_of (dict_set d k v) = (map_of d)(k \<mapsto> v)"
  by (induction d) (auto simp: fun_eq_iff)

lemma dict_set_nonempty: "0 < length (dict_set d k v)"
  by (cases d) (auto split: if_splits)

lemma keep_first_present: "map_of m k = Some xs \<Longrightarrow> keep_first m k e = m"
  by (simp add: keep_first_def)

lemma keep_first_preserves:
  "map_of m k' = Some xs \<Longrightarrow> map_of (keep_first m k e) k' = Some xs"
  by (cases "k = k'") (auto simp: keep_first_def map_of_dict_set split: option.splits)

lemma keep_first_absent: "map_of m k = None \<Longrightarrow> map_of (keep_first m k e) k = Some [e]"
  by (simp add: keep_first_def map_of_dict_set)

lemma foldl_keep_first_present:
  "map_of m k = Some xs \<Longrightarrow> foldl (\<lambda>d e. keep_first d k e) m es = m"
  by (induction es) (simp_all add: keep_first_present)

lemma keep_first_repeated:
  "map_of m k = None \<Longrightarrow> map_of (foldl (\<lambda>d e. keep_first d k e) m (e # es)) k = Some [e]"
  using foldl_keep_first_present [of "keep_first m k e" k "[e]" es]
  by (simp add: keep_first_absent)

lemma push_same:
  "map_of (push m k e) k = Some ((case map_of m k of None \<Rightarrow> [] | Some xs \<Rightarrow> xs) @ [e])"
  by (simp add: push_def map_of_dict_set split: option.splits)

lemma push_other: "k \<noteq> k' \<Longrightarrow> map_of (push m k e) k' = map_of m k'"
  by (simp add: push_def map_of_dict_set split: option.splits)

lemma push_repeated:
  "map_of (foldl (\<lambda>d e. push d k e) m es) k =
     (if es = [] then map_of m k
      else Some ((case map_of m k of None \<Rightarrow> [] | Some xs \<Rightarrow> xs) @ es))"
  by (induction es arbitrary: m) (auto simp: push_same split: option.splits)

subsection \<open>The groups of one record\<close>

text \<open>
  A group name built by \<open>to_safe\<close> from a prefix that does not start with \<open>f\<close> is never a
  name that starts with \<open>first_in_\<close>.
\<close>

lemma first_in_differs:
  assumes "prefix ''first_in_'' K" and "c \<noteq> CHR ''f''" and "keeps c"
  shows "to_safe (c # rest) \<noteq> K"
  using assms by (auto simp: prefix_def to_safe_def)

lemma add_tag_preserves:
  assumes "map_of m K = Some xs" and "prefix ''first_in_'' K"
  shows "map_of (add_tag dest m kv) K = Some xs"
proof -
  let ?key = "to_safe (''tag_'' @ fst kv @ ''='' @ snd kv)"
  have "?key \<noteq> K"
    using first_in_differs [OF assms(2), of "CHR ''t''"] by (simp add: keeps_def in_range_def)
  then have "map_of (push m ?key dest) K = Some xs"
    using assms(1) by (simp add: push_other)
  then show ?thesis
    by (simp add: add_tag_def Let_def keep_first_preserves)
qed

lemma tags_preserve:
  "map_of m K = Some xs \<Longrightarrow> prefix ''first_in_'' K
   \<Longrightarrow> map_of (foldl (add_tag dest) m ts) K = Some xs"
  by (induction ts arbitrary: m) (simp_all add: add_tag_preserves)

lemma pushes_preserve:
  "k \<notin> set names \<Longrightarrow> map_of (foldl (\<lambda>d name. push d name dest) m names) k = map_of m k"
  by (induction names arbitrary: m) (auto simp: push_other)

lemma groups_preserve:
  assumes "prefix ''first_in_'' K"
  shows "map_of (foldl (\<lambda>d gr. push d (to_safe (''security_group_'' @ snd gr)) dest) m gs) K
         = map_of m K"
proof (induction gs arbitrary: m)
  case Nil
  show ?case by simp
next
  case (Cons gr gs)
  have "to_safe (''security_group_'' @ snd gr) \<noteq> K"
    using first_in_differs [OF assms, of "CHR ''s''"] by (simp add: keeps_def in_range_def)
  then show ?case using Cons by (simp add: push_other)
qed

lemma group_instance_preserves:
  assumes "group_instance cfg st i region dest = Some groups'"
    and "map_of (inventory st) K = Some xs"
    and "prefix ''first_in_'' K"
    and "iid i \<noteq> K"
    and "region \<noteq> K"
    and "placement i \<noteq> K"
    and "route53_enabled cfg \<longrightarrow> K \<notin> set (get_instance_route53_names st i)"
  shows "map_of groups' K = Some xs"
proof -
  obtain gs where gs: "groups i = Some gs"
    using assms(1) by (auto simp: group_instance_def Let_def split: option.splits)
  define inv4 where "inv4 = push (push (push (dict_set (inventory st) (iid i) [dest]) region dest)
      (placement i) dest) (to_safe (''type_'' @ instance_type i)) dest"
  define inv5 where "inv5 = (case key_name i of None \<Rightarrow> inv4
     | Some k \<Rightarrow> if k = [] then inv4 else push inv4 (to_safe (''key_'' @ k)) dest)"
  define inv6 where
    "inv6 = foldl (\<lambda>m gr. push m (to_safe (''security_group_'' @ snd gr)) dest) inv5 gs"
  define inv7 where "inv7 = foldl (add_tag dest) inv6 (tags i)"
  have t: "to_safe (''type_'' @ instance_type i) \<noteq> K"
    using first_in_differs [OF assms(3), of "CHR ''t''"] by (simp add: keeps_def in_range_def)
  have 4: "map_of inv4 K = Some xs"
    using assms(2,4,5,6) t by (simp add: inv4_def push_other map_of_dict_set)
  have k: "to_safe (''key_'' @ k) \<noteq> K" for k
    using first_in_differs [OF assms(3), of "CHR ''k''"] by (simp add: keeps_def in_range_def)
  have 5: "map_of inv5 K = Some xs"
    using 4 k by (simp add: inv5_def push_other split: option.splits)
  have 6: "map_of inv6 K = Some xs"
    unfolding inv6_def groups_preserve [OF assms(3)] by (rule 5)
  have 7: "map_of inv7 K = Some xs"
    unfolding inv7_def by (rule tags_preserve [OF 6 assms(3)])
  have "group_instance cfg st i region dest =
          Some (if route53_enabled cfg
                then foldl (\<lambda>m name. push m name dest) inv7 (get_instance_route53_names st i)
                else inv7)"
    unfolding group_instance_def Let_def inv7_def inv6_def inv5_def inv4_def gs by simp
  with assms(1) have "groups' =
          (if route53_enabled cfg
           then foldl (\<lambda>m name. push m name dest) inv7 (get_instance_route53_names st i)
           else inv7)"
    by simp
  then show ?thesis
    using 7 assms(7) by (simp add: pushes_preserve)
qed

lemma add_instance_first_in_unchanged:
  assumes "add_instance cfg st i region = Inr st'"
    and "map_of (inventory st) K = Some xs"
    and "prefix ''first_in_'' K"
    and "iid i \<noteq> K"
    and "region \<noteq> K"
    and "placement i \<noteq> K"
    and "route53_enabled cfg \<longrightarrow> K \<notin> set (get_instance_route53_names st i)"
  shows "map_of (inventory st') K = Some xs"
proof (cases "state i = ''running''")
  case False
  with assms(1,2) show ?thesis by (simp add: add_instance_def)
next
  case True
  show ?thesis
  proof (cases "select_destination cfg i")
    case (Inl e)
    with assms(1) True show ?thesis by (simp add: add_instance_def)
  next
    case (Inr dest)
    show ?thesis
    proof (cases "truthy dest")
      case False
      with assms(1,2) True Inr show ?thesis by (simp add: add_instance_def)
    next
      case t: True
      with assms(1) True Inr obtain d idx groups' where
        "group_instance cfg st i region d = Some groups'"
        and "st' = st\<lparr>inventory := groups', index := idx\<rparr>"
        by (auto simp: add_instance_def split: pyval.splits sum.splits option.splits)
      with group_instance_preserves [OF _ assms(2-7)] show ?thesis by simp
    qed
  qed
qed

subsection \<open>A refresh\<close>



lemma write_to_cache_result:
  assumes "write_to_cache cfg now st data filename = Inr st'"
  shows "\<exists>text. json_format_dict cfg data True = Inr text
           \<and> st' = st\<lparr>fs := (fs st)(filename \<mapsto> \<lparr>mtime = now, content = JsonText text\<rparr>)\<rparr>"
  using assms by (auto simp: write_to_cache_def split: sum.splits)

text \<open>What a completed refresh leaves in the two files it writes.\<close>

lemma refresh_files:
  assumes "do_api_calls_update_cache cfg A now st = Inr st'"
  shows "\<exists>payload idx.
           json_format_dict cfg (inventory_json (inventory st')) True = Inr payload
         \<and> json_format_dict cfg (index st') True = Inr idx
         \<and> fs st' (cache_path_index cfg) = Some \<lparr>mtime = now, content = JsonText idx\<rparr>
         \<and> (cache_path_index cfg
               \<noteq> (if tags_only cfg then cache_path_tags cfg else cache_path_cache cfg)
              \<longrightarrow> fs st' (if tags_only cfg then cache_path_tags cfg else cache_path_cache cfg)
                   = Some \<lparr>mtime = now, content = JsonText payload\<rparr>)"
proof -
  let ?file = "if tags_only cfg then cache_path_tags cfg else cache_path_cache cfg"
  from assms obtain st2 st3 where
    w1: "write_to_cache cfg now st2 (inventory_json (inventory st2)) ?file = Inr st3"
    and w2: "write_to_cache cfg now st3 (index st3) (cache_path_index cfg) = Inr st'"
    by (auto simp: do_api_calls_update_cache_def Let_def split: sum.splits)
  from write_to_cache_result [OF w1] obtain payload where
    p: "json_format_dict cfg (inventory_json (inventory st2)) True = Inr payload"
    and st3: "st3 = st2\<lparr>fs := (fs st2)(?file \<mapsto> \<lparr>mtime = now, content = JsonText payload\<rparr>)\<rparr>"
    by blast
  from write_to_cache_result [OF w2] obtain idx where
    i: "json_format_dict cfg (index st3) True = Inr idx"
    and st': "st' = st3\<lparr>fs := (fs st3)(cache_path_index cfg \<mapsto>
                                        \<lparr>mtime = now, content = JsonText idx\<rparr>)\<rparr>"
    by blast
  have "inventory st' = inventory st2" and "index st' = index st3"
    using st3 st' by simp_all
  with p i st3 st' show ?thesis by auto
qed

text \<open>Without the tags-only option the index file holds the index, keys sorted.\<close>

lemma index_file_without_tags_only:
  assumes "do_api_calls_update_cache cfg A now st = Inr st'" and "\<not> tags_only cfg"
  shows "fs st' (cache_path_index cfg)
         = Some \<lparr>mtime = now, content = JsonText (sort_keys (index st'))\<rparr>"
  using refresh_files [OF assms(1)] assms(2) by (auto simp: json_format_dict_def dumps_def)

lemma add_instance_refreshes:
  "add_instance cfg st i region = Inr st' \<Longrightarrow> refreshes st' = refreshes st"
  by (auto simp: add_instance_def split: if_splits sum.splits pyval.splits option.splits)

lemma add_rds_instance_refreshes:
  "add_rds_instance cfg st i region = Inr st' \<Longrightarrow> refreshes st' = refreshes st"
  by (auto simp: add_rds_instance_def Let_def split: if_splits sum.splits option.splits)

lemma add_instances_refreshes:
  "add_instances cfg st is region = Inr st' \<Longrightarrow> refreshes st' = refreshes st"
  by (induction "is" arbitrary: st) (auto split: sum.splits dest: add_instance_refreshes)

lemma add_rds_instances_refreshes:
  "add_rds_instances cfg st is region = Inr st' \<Longrightarrow> refreshes st' = refreshes st"
  by (induction "is" arbitrary: st) (auto split: sum.splits dest: add_rds_instance_refreshes)

lemma all_regions_refreshes:
  "all_regions cfg A st rs = Inr st' \<Longrightarrow> refreshes st' = refreshes st"
proof (induction rs arbitrary: st)
  case Nil
  then show ?case by simp
next
  case (Cons r rs)
  from Cons.prems obtain st1 st2 where
    1: "get_instances_by_region cfg A st r = Inr st1"
    and 2: "get_rds_instances_by_region cfg A st1 r = Inr st2"
    and 3: "all_regions cfg A st2 rs = Inr st'"
    by (auto split: sum.splits)
  from 1 have "refreshes st1 = refreshes st"
    by (auto simp: get_instances_by_region_def split: option.splits sum.splits
        dest: add_instances_refreshes)
  moreover from 2 have "refreshes st2 = refreshes st1"
    by (auto simp: get_rds_instances_by_region_def split: option.splits sum.splits
        dest: add_rds_instances_refreshes)
  ultimately show ?case using Cons.IH [OF 3] by simp
qed

lemma refresh_counted:
  assumes "do_api_calls_update_cache cfg A now st = Inr st'"
  shows "refreshes st' = Suc (refreshes st)"
proof -
  from assms obtain st1 st2 st3 f g where
    "all_regions cfg A st1 (regions cfg) = Inr st2"
    and "refreshes st1 = Suc (refreshes st)"
    and "write_to_cache cfg now st2 f g = Inr st3"
    and "write_to_cache cfg now st3 (index st3) (cache_path_index cfg) = Inr st'"
    by (auto simp: do_api_calls_update_cache_def Let_def get_route53_records_def
        split: sum.splits if_splits)
  then show ?thesis
    by (auto dest!: write_to_cache_result all_regions_refreshes)
qed

text \<open>
  A host that is absent from a non-empty index in memory, with the tags-only option off:
  one refresh runs and, the host still absent, the answer is the empty object.
\<close>

lemma host_miss_refreshes_once:
  assumes "py_len (index st) = Inr n" and "n \<noteq> 0"
    and "py_contains (index st) h = Inr False"
    and "do_api_calls_update_cache cfg A now st = Inr st2"
    and "py_contains (index st2) h = Inr False"
    and "\<not> tags_only cfg"
  shows "get_host_info cfg A now h st = Inr (JObj [], st2) \<and> refreshes st2 = Suc (refreshes st)"
  using assms refresh_counted [OF assms(4)]
  by (simp add: get_host_info_def json_format_dict_def dumps_def)

subsection \<open>Rounding to a double\<close>

text \<open>The rounding of a number between two consecutive powers of two, from 1 upwards.\<close>

lemma round_double_binade:
  assumes "2 ^ n \<le> x" and "x < 2 ^ Suc n"
  shows "round_double x = of_int (round_half_even (x * 2 ^ 52 / 2 ^ n)) * (2 ^ n / 2 ^ 52)"
proof -
  have pos: "0 < x" using assms(1) by (smt (verit) zero_less_power)
  then have nz: "x \<noteq> 0" by simp
  have "\<lfloor>log 2 x\<rfloor> = int n"
    using assms pos by (simp add: floor_log_eq_powr_iff powr_realpow powr_add)
  then have fl: "max (\<lfloor>log 2 \<bar>x\<bar>\<rfloor> - 52) (- 1074) = int n - 52" using pos by simp
  have p: "2 powr (real_of_int (int n - 52)) = (2::real) ^ n / 2 ^ 52"
    by (simp add: powr_diff powr_realpow)
  have q: "x / ((2::real) ^ n / 2 ^ 52) = x * 2 ^ 52 / 2 ^ n" by simp
  have "round_double x =
          (let e = max (\<lfloor>log 2 \<bar>x\<bar>\<rfloor> - 52) (- 1074)
           in of_int (round_half_even (x / 2 powr of_int e)) * 2 powr of_int e)"
    using nz by (simp only: round_double_def if_False)
  also have "\<dots> = of_int (round_half_even (x / (2 ^ n / 2 ^ 52))) * (2 ^ n / 2 ^ 52)"
    unfolding Let_def fl p ..
  finally show ?thesis unfolding q .
qed

lemma max_age_300: "float_of_int 300 = Inr 300"
  using round_double_binade [of 8 300] by (simp add: float_of_int_def round_half_even_def)

lemma sum_100_300: "float_add 100 300 = Finite 400"
  using round_double_binade [of 8 "100 + 300"] by (simp add: float_add_def round_half_even_def)

text \<open>The exact sum lies a quarter of the spacing of the doubles above \<open>edge_now\<close>.\<close>

lemma sum_edge_300: "float_add edge_mtime 300 = Finite edge_now"
  using round_double_binade [of 8 "edge_mtime + 300"]
  by (simp add: float_add_def round_half_even_def edge_mtime_def edge_now_def)

text \<open>
  A record whose destination resolves to a false value (\<open>None\<close> or the empty string) is
  dropped: the state is returned as it was and nothing is raised.
\<close>

lemma falsy_destination_unchanged:
  "(select_destination cfg i = Inr dest \<and> \<not> truthy dest
      \<longrightarrow> add_instance cfg st i region = Inr st)
   \<and> (endpoint d = Some (a, port) \<and> (a = None \<or> a = Some [])
        \<longrightarrow> add_rds_instance cfg st d region = Inr st)"
  by (auto simp: add_instance_def add_rds_instance_def)

section \<open>The claims\<close>




text \<open>
  C2, evaluated where it fails. With the tags-only option a refresh that indexed the
  endpoint 1.2.3.4 writes the empty list to the index file, not the mapping from the
  endpoint to its region and id.
\<close>

theorem index_file_under_tags_only:
  "(case do_api_calls_update_cache tags_settings (example_adapter [example_instance]) 0
           (init_state Map.empty) of
      Inl e \<Rightarrow> False
    | Inr st \<Rightarrow>
        index st = JObj [(''1.2.3.4'', JList [JStr ''us-east-1'', JStr ''i-1''])]
        \<and> map_option content (fs st (cache_path_index tags_settings))
            = Some (JsonText (JList [])))"
  by (simp add: grouping_defs refresh_defs example_defs)

text \<open>
  C3, as amended. With the tags-only option the serialised inventory, and the tags file a
  refresh writes, is the list of exactly the group names that contain \<open>tag_\<close> somewhere, in
  the order of the inventory. Every name that starts with \<open>tag_\<close> is among them.
\<close>

theorem tags_only_projection_contains_tag:
  assumes "tags_only cfg"
  shows "json_format_dict cfg (inventory_json groups') True
           = Inr (JList (map JStr (filter (sublist ''tag_'') (map fst groups'))))
       \<and> set (filter (sublist ''tag_'') (map fst groups'))
           = {g \<in> set (map fst groups'). sublist ''tag_'' g}
       \<and> {g \<in> set (map fst groups'). prefix ''tag_'' g}
           \<subseteq> set (filter (sublist ''tag_'') (map fst groups'))
       \<and> (do_api_calls_update_cache cfg A now st = Inr st'
            \<and> cache_path_index cfg \<noteq> cache_path_tags cfg
          \<longrightarrow> fs st' (cache_path_tags cfg)
              = Some \<lparr>mtime = now,
                      content = JsonText (JList (map JStr
                                  (filter (sublist ''tag_'') (map fst (inventory st')))))\<rparr>)"
proof -
  have fmt: "json_format_dict cfg (inventory_json m) True
             = Inr (JList (map JStr (filter (sublist ''tag_'') (map fst m))))" for m
    using assms by (simp add: json_format_dict_def inventory_json_def dumps_def comp_def)
  have sub: "{g \<in> set (map fst groups'). prefix ''tag_'' g}
             \<subseteq> set (filter (sublist ''tag_'') (map fst groups'))"
    by (auto intro: prefix_imp_sublist)
  have "fs st' (cache_path_tags cfg)
          = Some \<lparr>mtime = now,
                  content = JsonText (JList (map JStr
                              (filter (sublist ''tag_'') (map fst (inventory st')))))\<rparr>"
    if "do_api_calls_update_cache cfg A now st = Inr st'"
      and "cache_path_index cfg \<noteq> cache_path_tags cfg"
    using refresh_files [OF that(1)] that(2) assms fmt [of "inventory st'"] by auto
  with fmt [of groups'] sub show ?thesis by auto
qed

theorem tags_only_projection_contains_tag_witness:
  "tags_only tags_settings
   \<and> json_format_dict tags_settings (inventory_json (inventory after_second)) True
       = Inr (JList [JStr ''tag_env_prod'', JStr ''first_in_tag_env_prod''])
   \<and> sublist ''tag_'' ''first_in_tag_env_prod''"
  using tags_only_projection_contains_tag [of tags_settings "inventory after_second"]
  by (simp add: tags_settings_def example_settings_def after_second_def sublist_code)

text \<open>
  C3 as stated fails: the record of the end-to-end example creates the group
  \<open>first_in_tag_env_prod\<close>, which the tags-only output lists (the serialised inventory, and
  what a whole run with the option prints) and which does not start with \<open>tag_\<close>.
\<close>

theorem tags_only_projection_not_prefix:
  "add_instance example_settings (init_state Map.empty) example_instance ''us-east-1''
     = Inr after_first
   \<and> json_format_dict tags_settings (inventory_json (inventory after_first)) True
       = Inr (JList [JStr ''tag_env_prod'', JStr ''first_in_tag_env_prod''])
   \<and> map_sum id fst (main tags_settings (example_adapter [example_instance]) 0 Map.empty)
       = Inr (JsonText (JList [JStr ''tag_env_prod'', JStr ''first_in_tag_env_prod'']))
   \<and> \<not> prefix ''tag_'' ''first_in_tag_env_prod''"
  using first_record_added
  by (simp add: main_def is_cache_valid_def grouping_defs refresh_defs example_defs
      after_first_def)

text \<open>
  C4, as amended. With the payload file (the tags file under the tags-only option, the
  cache file otherwise) on disk with modification time \<open>mtime f\<close> and a maximum age that
  converts to the double \<open>max_age\<close>, \<open>is_cache_valid\<close> is true exactly when the current time
  is below the sum of the two as double arithmetic computes it (the exact sum rounded to the
  nearest double) and the index file exists. Whenever the conversion and the sum are
  exact, that is: exactly when the current time is below \<open>mtime f\<close> plus the maximum age and
  the index file exists. Without the index file it is never true.
\<close>

theorem is_cache_valid_rounded_sum:
  "(fs st (if tags_only cfg then cache_path_tags cfg else cache_path_cache cfg) = Some f
      \<and> float_of_int (cache_max_age cfg) = Inr max_age
     \<longrightarrow> is_cache_valid cfg now st
         = Inr (float_gt (float_add (mtime f) max_age) now \<and> isfile st (cache_path_index cfg)))
   \<and> (fs st (if tags_only cfg then cache_path_tags cfg else cache_path_cache cfg) = Some f
        \<and> float_of_int (cache_max_age cfg) = Inr (real_of_int (cache_max_age cfg))
        \<and> float_add (mtime f) (real_of_int (cache_max_age cfg))
            = Finite (mtime f + real_of_int (cache_max_age cfg))
     \<longrightarrow> is_cache_valid cfg now st
         = Inr (now < mtime f + real_of_int (cache_max_age cfg)
                \<and> isfile st (cache_path_index cfg)))
   \<and> (fs st (cache_path_index cfg) = None \<longrightarrow> is_cache_valid cfg now st \<noteq> Inr True)"
  by (auto simp: is_cache_valid_def isfile_def Let_def split: option.splits sum.splits)

theorem is_cache_valid_rounded_sum_witness:
  "fs (init_state stale_files) (cache_path_cache example_settings)
     = Some \<lparr>mtime = 100, content = JsonText (JObj [(''i-0'', JList [JStr ''9.9.9.9''])])\<rparr>
   \<and> float_of_int (cache_max_age example_settings) = Inr 300
   \<and> float_add 100 300 = Finite (100 + 300)
   \<and> is_cache_valid example_settings 250 (init_state stale_files) = Inr True
   \<and> is_cache_valid example_settings 400 (init_state stale_files) = Inr False
   \<and> fs (init_state (stale_files(''/tmp/ansible-ec2.index'' := None)))
        (cache_path_index example_settings) = None
   \<and> is_cache_valid example_settings 250
        (init_state (stale_files(''/tmp/ansible-ec2.index'' := None))) = Inr False"
  using is_cache_valid_rounded_sum
    [of "init_state stale_files" example_settings
        "\<lparr>mtime = 100, content = JsonText (JObj [(''i-0'', JList [JStr ''9.9.9.9''])])\<rparr>"
        300 250]
    is_cache_valid_rounded_sum
    [of "init_state stale_files" example_settings
        "\<lparr>mtime = 100, content = JsonText (JObj [(''i-0'', JList [JStr ''9.9.9.9''])])\<rparr>"
        300 400]
    is_cache_valid_rounded_sum
    [of "init_state (stale_files(''/tmp/ansible-ec2.index'' := None))" example_settings
        "\<lparr>mtime = 100, content = JsonText (JObj [(''i-0'', JList [JStr ''9.9.9.9''])])\<rparr>"
        300 250]
    max_age_300 sum_100_300
  by (simp add: example_defs isfile_def)

text \<open>
  C4 as stated fails: with a payload file of modification time \<open>edge_mtime\<close>, maximum age
  300, current time \<open>edge_now\<close> and the index file on disk, the current time is below the
  exact sum, and \<open>is_cache_valid\<close> is false, since the sum the code compares is the double
  \<open>edge_now\<close> itself.
\<close>

theorem is_cache_valid_exact_sum_fails:
  "map_option mtime (fs (init_state edge_files) (cache_path_cache example_settings))
     = Some edge_mtime
   \<and> cache_max_age example_settings = 300
   \<and> edge_now < edge_mtime + real_of_int 300
   \<and> isfile (init_state edge_files) (cache_path_index example_settings)
   \<and> is_cache_valid example_settings edge_now (init_state edge_files) = Inr False"
proof -
  have "edge_now < edge_mtime + real_of_int 300"
    by (simp add: edge_mtime_def edge_now_def)
  moreover have "is_cache_valid example_settings edge_now (init_state edge_files) = Inr False"
    using max_age_300 sum_edge_300
    by (simp add: is_cache_valid_def isfile_def example_defs edge_files_def)
  ultimately show ?thesis
    by (simp add: isfile_def example_defs edge_files_def)
qed

text \<open>
  C5, evaluated where it fails. With the tags-only option, a host that is absent from the
  index loaded from the cache and still absent after the one refresh gets the empty list
  as its answer, not the empty object.
\<close>

theorem host_miss_under_tags_only:
  "(case get_host_info tags_settings (example_adapter [example_instance]) 0 ''10.0.0.9''
           (init_state stale_files) of
      Inl e \<Rightarrow> False
    | Inr (text, st) \<Rightarrow>
        text = JList [] \<and> text \<noteq> JObj []
        \<and> refreshes st = Suc (refreshes (init_state stale_files)))"
  by (simp add: get_host_info_def load_index_from_cache_def dict_has_def
      grouping_defs refresh_defs example_defs)

text \<open>
  C6. A compute record whose state is not \<open>running\<close> and a database record whose status is
  not \<open>available\<close> leave the whole state, inventory and index included, as it was.
\<close>

theorem not_running_unchanged:
  "(state i \<noteq> ''running'' \<longrightarrow> add_instance cfg st i region = Inr st)
   \<and> (status d \<noteq> ''available'' \<longrightarrow> add_rds_instance cfg st d region = Inr st)"
  by (simp add: add_instance_def add_rds_instance_def)

theorem not_running_unchanged_witness:
  "state (example_instance\<lparr>state := ''stopped''\<rparr>) \<noteq> ''running''
   \<and> add_instance example_settings after_first (example_instance\<lparr>state := ''stopped''\<rparr>)
        ''us-east-1'' = Inr after_first
   \<and> status (example_db\<lparr>status := ''creating''\<rparr>) \<noteq> ''available''
   \<and> add_rds_instance example_settings after_first (example_db\<lparr>status := ''creating''\<rparr>)
        ''us-east-1'' = Inr after_first"
  using not_running_unchanged
    [of "example_instance\<lparr>state := ''stopped''\<rparr>" example_settings after_first "''us-east-1''"
        "example_db\<lparr>status := ''creating''\<rparr>"]
  by (simp add: example_instance_def example_db_def)

text \<open>
  C7, evaluated where it fails. An available database record that has no endpoint is not
  dropped: \<^verbatim>\<open>instance.endpoint[0]\<close> raises \<open>TypeError\<close> before the destination is tested,
  and the refresh that meets the record ends with that error.
\<close>

theorem missing_endpoint_raises:
  "status (example_db\<lparr>endpoint := None\<rparr>) = ''available''
   \<and> endpoint (example_db\<lparr>endpoint := None\<rparr>) = None
   \<and> add_rds_instance example_settings after_first (example_db\<lparr>endpoint := None\<rparr>)
        ''us-east-1'' = Inl TypeError
   \<and> do_api_calls_update_cache example_settings no_endpoint_adapter 0 (init_state Map.empty)
       = Inl TypeError"
  by (simp add: grouping_defs refresh_defs example_defs no_endpoint_adapter_def)

text \<open>
  C8. For every input string, the output of \<open>to_safe\<close> matches \<^verbatim>\<open>^[A-Za-z0-9_-]*$\<close>, has the
  length of the input, and \<open>to_safe\<close> is idempotent.
\<close>

theorem to_safe_safe_length_idem:
  "matches_safe (to_safe x) \<and> length (to_safe x) = length x \<and> to_safe (to_safe x) = to_safe x"
proof -
  have "matches_safe (to_safe x)"
    by (induction x) (simp_all add: matches_safe_def to_safe_def safe_char_def keeps_def)
  moreover have "length (to_safe x) = length x"
    by (simp add: to_safe_def)
  moreover have "to_safe (to_safe x) = to_safe x"
    by (induction x) (simp_all add: to_safe_def keeps_def in_range_def)
  ultimately show ?thesis by blast
qed

theorem to_safe_safe_length_idem_witness:
  "to_safe ''t2.micro env=prod'' = ''t2_micro_env_prod''
   \<and> matches_safe (to_safe ''t2.micro env=prod'')
   \<and> length (to_safe ''t2.micro env=prod'') = length ''t2.micro env=prod''
   \<and> to_safe (to_safe ''t2.micro env=prod'') = to_safe ''t2.micro env=prod''"
  using to_safe_safe_length_idem [of "''t2.micro env=prod''"]
  by (simp add: to_safe_def keeps_def in_range_def)

text \<open>
  C9. \<open>keep_first\<close> creates a key only if it is absent: written any number of times to a
  key that was absent, it leaves the one-element list of the first call, and on a key that
  is present it changes nothing. The loop over the tags of a record leaves every
  \<open>first_in_\<close> group that exists as it is, and so does the whole of \<open>add_instance\<close> for a
  record whose id, region, zone and resolved domain names are not themselves the name of
  that group. \<open>push\<close> on a key that was absent, called once for each element of \<open>es\<close>, leaves
  \<open>es\<close>: as many elements as calls, in call order.
\<close>

theorem keep_first_push_semantics:
  "(map_of m k = None
      \<longrightarrow> map_of (foldl (\<lambda>d e. keep_first d k e) m (e # es)) k = Some [e])
   \<and> (map_of m k = Some xs \<longrightarrow> keep_first m k e = m)
   \<and> (map_of m' K = Some ys \<and> prefix ''first_in_'' K
        \<longrightarrow> map_of (foldl (add_tag dest) m' ts) K = Some ys)
   \<and> (add_instance cfg st i region = Inr st'
        \<and> map_of (inventory st) K = Some ys \<and> prefix ''first_in_'' K
        \<and> iid i \<noteq> K \<and> region \<noteq> K \<and> placement i \<noteq> K
        \<and> (route53_enabled cfg \<longrightarrow> K \<notin> set (get_instance_route53_names st i))
        \<longrightarrow> map_of (inventory st') K = Some ys)
   \<and> (map_of m k = None \<and> es \<noteq> []
        \<longrightarrow> map_of (foldl (\<lambda>d e. push d k e) m es) k = Some es)"
proof -
  have 1: "map_of m k = None
      \<longrightarrow> map_of (foldl (\<lambda>d e. keep_first d k e) m (e # es)) k = Some [e]"
    using keep_first_repeated by blast
  have 2: "map_of m k = Some xs \<longrightarrow> keep_first m k e = m"
    using keep_first_present by blast
  have 3: "map_of m' K = Some ys \<and> prefix ''first_in_'' K
        \<longrightarrow> map_of (foldl (add_tag dest) m' ts) K = Some ys"
    using tags_preserve by blast
  have 4: "add_instance cfg st i region = Inr st'
        \<and> map_of (inventory st) K = Some ys \<and> prefix ''first_in_'' K
        \<and> iid i \<noteq> K \<and> region \<noteq> K \<and> placement i \<noteq> K
        \<and> (route53_enabled cfg \<longrightarrow> K \<notin> set (get_instance_route53_names st i))
        \<longrightarrow> map_of (inventory st') K = Some ys"
    using add_instance_first_in_unchanged [of cfg st i region st' K ys] by blast
  have 5: "map_of m k = None \<and> es \<noteq> []
        \<longrightarrow> map_of (foldl (\<lambda>d e. push d k e) m es) k = Some es"
    by (simp add: push_repeated)
  from 1 2 3 4 5 show ?thesis by blast
qed

theorem keep_first_push_semantics_witness:
  "map_of (foldl (\<lambda>d e. keep_first d ''g'' e) [] [''a'', ''b'', ''c'']) ''g'' = Some [''a'']
   \<and> map_of (foldl (\<lambda>d e. push d ''g'' e) [] [''b'', ''c'']) ''g'' = Some [''b'', ''c'']
   \<and> keep_first (inventory after_first) ''first_in_tag_env_prod'' ''5.6.7.8''
       = inventory after_first
   \<and> add_instance example_settings after_first second_instance ''us-east-1'' = Inr after_second
   \<and> map_of (inventory after_first) ''first_in_tag_env_prod'' = Some [''1.2.3.4'']
   \<and> map_of (inventory after_second) ''first_in_tag_env_prod'' = Some [''1.2.3.4'']
   \<and> map_of (inventory after_second) ''tag_env_prod'' = Some [''1.2.3.4'', ''5.6.7.8'']
   \<and> map_of (foldl (add_tag ''5.6.7.8'') (inventory after_first) [(''env'', ''prod'')])
        ''first_in_tag_env_prod'' = Some [''1.2.3.4'']"
  using keep_first_push_semantics
    [where m = "[]" and k = "''g''" and e = "''a''" and es = "[''b'', ''c'']"
       and xs = "[]" and m' = "inventory after_first" and K = "''first_in_tag_env_prod''"
       and ys = "[''1.2.3.4'']" and dest = "''5.6.7.8''" and ts = "[(''env'', ''prod'')]"
       and cfg = example_settings and st = after_first and i = second_instance
       and region = "''us-east-1''" and st' = after_second]
    keep_first_push_semantics
    [where m = "inventory after_first" and k = "''first_in_tag_env_prod''"
       and e = "''5.6.7.8''" and es = "[]" and xs = "[''1.2.3.4'']"
       and m' = "inventory after_first" and K = "''first_in_tag_env_prod''"
       and ys = "[''1.2.3.4'']" and dest = "''5.6.7.8''" and ts = "[(''env'', ''prod'')]"
       and cfg = example_settings and st = after_first and i = second_instance
       and region = "''us-east-1''" and st' = after_second]
    second_record_added
  by (simp add: after_first_def after_second_def example_settings_def second_instance_def
      example_instance_def)

text \<open>
  C10. For an endpoint that \<open>add_rds_instance\<close> put into the index, \<open>get_host_info\<close> fetches
  the record by \<open>get_instance\<close> with the region and the id of the database instance, through
  the compute connection, and flattens what that returns; the database API of the provider
  has no part in the result.
\<close>

theorem rds_endpoint_described_by_get_instance:
  assumes "add_rds_instance cfg st db region = Inr st'"
    and "status db = ''available''"
    and "endpoint db = Some (Some h, port)"
    and "h \<noteq> []"
  shows "get_host_info cfg A now h st' =
           (case get_instance cfg A region (db_id db) of
              Inl e \<Rightarrow> Inl e
            | Inr None \<Rightarrow> Inl TypeError
            | Inr (Some i) \<Rightarrow>
                (case host_vars [] (instance_vars i) of
                   Inl e \<Rightarrow> Inl e
                 | Inr vs \<Rightarrow>
                     (case json_format_dict cfg (JObj vs) True of
                        Inl e \<Rightarrow> Inl e
                      | Inr text \<Rightarrow> Inr (text, st'))))
       \<and> get_host_info cfg (A\<lparr>rds_connect_to_region := r\<rparr>) now h st'
           = get_host_info cfg A now h st'"
proof -
  from assms obtain d where
    idx: "index st' = JObj (dict_set d h (JList [JStr region, JStr (db_id db)]))"
    by (cases "index st")
       (auto simp: add_rds_instance_def Let_def split: sum.splits option.splits)
  have look: "get_host_info cfg B now h st' = lookup_host cfg B h st'" for B
    using idx dict_set_nonempty [of d h "JList [JStr region, JStr (db_id db)]"]
    by (simp add: get_host_info_def dict_has_def map_of_dict_set)
  have entry: "py_index_entry (index st') h = Inr (region, db_id db)"
    using idx by (simp add: map_of_dict_set)
  have "lookup_host cfg B h st' =
          (case describe_instance cfg B region (db_id db) of
             Inl e \<Rightarrow> Inl e | Inr text \<Rightarrow> Inr (text, st'))" for B
    using entry by (simp add: lookup_host_def)
  then show ?thesis
    unfolding look
    by (auto simp: describe_instance_def get_instance_def connect_def
        split: sum.splits option.splits)
qed

theorem rds_endpoint_described_by_get_instance_witness:
  "add_rds_instance example_settings (init_state Map.empty) example_db ''us-east-1''
     = Inr after_db
   \<and> status example_db = ''available''
   \<and> endpoint example_db = Some (Some ''db-1.rds.example'', 3306)
   \<and> get_instance example_settings (example_adapter [example_instance]) ''us-east-1'' ''db-1''
       = Inr None
   \<and> get_host_info example_settings (example_adapter [example_instance]) 0
        ''db-1.rds.example'' after_db = Inl TypeError"
  using rds_endpoint_described_by_get_instance
    [of example_settings "init_state Map.empty" example_db "''us-east-1''" after_db
        "''db-1.rds.example''" 3306 "example_adapter [example_instance]" 0]
    db_record_added
  by (simp add: get_instance_def connect_def example_defs)

end
